theory Spec2Isabelle
  imports Main
begin

section \<open>The message handler of autofill.js\<close>

text \<open>
  The script registers one listener for the window's \<open>message\<close> event. The listener reads
  the message payload \<open>event.data\<close>, looks two form inputs up by their \<open>name\<close> attribute,
  writes two payload fields into them, fires synthetic events and shows an alert.

  The embedding follows the listener statement by statement. JavaScript values are a
  datatype, an exception is an error value that carries the page as it is when the
  exception leaves the listener, the document is the list of its elements in document
  order, and every call the listener completes on the browser (console, value setter,
  event dispatch, alert) is appended to a trace, in the order of the calls.
\<close>

subsection \<open>JavaScript values\<close>

text \<open>
  The payload of a message is a structured clone: data without functions. The model has
  the primitive values and the plain objects. A number is kept as its canonical rendering,
  the string that \<open>Number.prototype.toString\<close> gives for it (\<open>7\<close>, \<open>1.5\<close>, \<open>1e+21\<close>,
  \<open>Infinity\<close>, \<open>NaN\<close>; both zeros render as \<open>0\<close>): the listener does no arithmetic, it tests
  a number for truthiness and hands it to a setter that converts it to that string. An
  object is the list of its own properties; a key is looked up from the front. The other
  objects a clone can hold (arrays, dates, maps and the like) are not represented.
\<close>

datatype jsval =
    Undefined
  | Null
  | Bool bool
  | Num string
  | Str string
  | Obj "(string \<times> jsval) list"

datatype js_error = TypeError | InvalidStateError

text \<open>The truthiness test of \<open>&&\<close> and \<open>if\<close>: zero and \<open>NaN\<close> are the falsy numbers.\<close>

fun truthy :: "jsval \<Rightarrow> bool" where
  "truthy Undefined = False"
| "truthy Null = False"
| "truthy (Bool b) = b"
| "truthy (Num r) = (r \<noteq> ''0'' \<and> r \<noteq> ''NaN'')"
| "truthy (Str s) = (s \<noteq> [])"
| "truthy (Obj kvs) = True"

text \<open>
  The property read \<open>v.k\<close>. Reading a property of \<open>undefined\<close> or \<open>null\<close> throws; an object
  answers with the property or with \<open>undefined\<close>; a boolean, a number or a string has none
  of the properties the listener reads (\<open>type\<close>, \<open>image_id\<close>, \<open>image_url\<close>) and answers
  \<open>undefined\<close>.
\<close>

fun get_prop :: "jsval \<Rightarrow> string \<Rightarrow> js_error + jsval" where
  "get_prop Undefined k = Inl TypeError"
| "get_prop Null k = Inl TypeError"
| "get_prop (Obj kvs) k = Inr (case map_of kvs k of None \<Rightarrow> Undefined | Some v \<Rightarrow> v)"
| "get_prop v k = Inr Undefined"

text \<open>Strict equality \<open>v === 'literal'\<close> against a string literal.\<close>

fun strict_eq_str :: "jsval \<Rightarrow> string \<Rightarrow> bool" where
  "strict_eq_str (Str s) lit = (s = lit)"
| "strict_eq_str v lit = False"

text \<open>
  The conversion of a value to the string that an attribute such as \<open>value\<close> takes. The
  attribute turns \<open>null\<close> into the empty string; every other value goes through
  \<open>ToString\<close>. A plain object is converted by its \<open>toString\<close> method. A payload holds no
  functions, so an own property named \<open>toString\<close> hides the inherited method with
  something that cannot be called; the conversion then turns to \<open>valueOf\<close>, which is
  hidden in the same way or answers with the object itself, and ends in a \<open>TypeError\<close>.
\<close>

fun to_dom_string :: "jsval \<Rightarrow> js_error + string" where
  "to_dom_string Undefined = Inr ''undefined''"
| "to_dom_string Null = Inr []"
| "to_dom_string (Bool b) = Inr (if b then ''true'' else ''false'')"
| "to_dom_string (Num r) = Inr r"
| "to_dom_string (Str s) = Inr s"
| "to_dom_string (Obj kvs) =
     (if map_of kvs ''toString'' = None then Inr ''[object Object]'' else Inl TypeError)"

subsection \<open>The message event, the document and the trace\<close>

record message_event =
  data :: jsval
  origin :: string

text \<open>
  What the \<open>value\<close> setter of an input does with a string depends on the state of the
  input's \<open>type\<close> attribute. In the mode \<open>value\<close> (text, number, date and the like) the
  string is stored and then sanitized, each type in its own way and with the input's other
  attributes; the sanitization is a function the input carries. In the mode \<open>default\<close>
  (hidden, checkbox, radio and the buttons) the string is stored as it is. In the mode
  \<open>filename\<close> (file) the empty string clears the selection and any other string is refused
  with an \<open>InvalidStateError\<close>.
\<close>

datatype value_mode =
    ModeValue "string \<Rightarrow> string"
  | ModeDefault
  | ModeFilename

fun store_value :: "value_mode \<Rightarrow> string \<Rightarrow> js_error + string" where
  "store_value (ModeValue sanitize) str = Inr (sanitize str)"
| "store_value ModeDefault str = Inr str"
| "store_value ModeFilename str = (if str = [] then Inr [] else Inl InvalidStateError)"

text \<open>The sanitization of a text input: line feeds and carriage returns are removed.\<close>

definition strip_newlines :: "string \<Rightarrow> string" where
  "strip_newlines str = filter (\<lambda>c. c \<noteq> CHR 0x0A \<and> c \<noteq> CHR 0x0D) str"

text \<open>
  An element carries its tag, its \<open>name\<close> attribute if it has one, the mode of its \<open>value\<close>
  setter and the string that reading its \<open>value\<close> gives. Elements are identified by their
  position in document order.

  The listeners other scripts attach to the dispatched events are not part of the script:
  a dispatch is recorded, it changes nothing, and it returns, as \<open>dispatchEvent\<close> does
  whatever its listeners throw.
\<close>

record element =
  tag_name :: string
  name_attr :: "string option"
  value_mode :: value_mode
  elem_value :: string

record dom_event =
  event_type :: string
  bubbles :: bool

datatype log_arg = LStr string | LVal jsval | LElem "nat option"

text \<open>
  One entry per completed call to the browser. \<open>SetValue\<close> keeps the value the script
  assigned, \<open>DispatchEvent\<close> the document as it is at the moment of the dispatch, which is
  what a listener of the event finds.
\<close>

datatype effect =
    ConsoleLog "log_arg list"
  | ConsoleError "log_arg list"
  | SetValue nat jsval
  | DispatchEvent nat dom_event "element list"
  | Alert string

record page =
  document :: "element list"
  trace :: "effect list"

text \<open>
  A run ends normally with a page, or with an exception and the page as the exception
  leaves it: nothing the listener did before is undone.
\<close>

type_synonym outcome = "(js_error \<times> page) + page"

subsection \<open>Browser calls\<close>

definition console_log :: "log_arg list \<Rightarrow> page \<Rightarrow> page" where
  "console_log args s = s\<lparr>trace := trace s @ [ConsoleLog args]\<rparr>"

definition console_error :: "log_arg list \<Rightarrow> page \<Rightarrow> page" where
  "console_error args s = s\<lparr>trace := trace s @ [ConsoleError args]\<rparr>"

definition alert :: "string \<Rightarrow> page \<Rightarrow> page" where
  "alert msg s = s\<lparr>trace := trace s @ [Alert msg]\<rparr>"

text \<open>The first position of a list whose element satisfies a test.\<close>

fun find_first :: "('a \<Rightarrow> bool) \<Rightarrow> 'a list \<Rightarrow> nat option" where
  "find_first P [] = None"
| "find_first P (x # xs) = (if P x then Some 0 else map_option Suc (find_first P xs))"

text \<open>
  \<open>document.querySelector('input[name="n"]')\<close>: the first element in document order that
  is an \<open>input\<close> and whose \<open>name\<close> attribute is \<open>n\<close>, or \<open>null\<close>.
\<close>

definition matches_input_name :: "string \<Rightarrow> element \<Rightarrow> bool" where
  "matches_input_name n e = (tag_name e = ''input'' \<and> name_attr e = Some n)"

definition querySelector_input_name :: "element list \<Rightarrow> string \<Rightarrow> nat option" where
  "querySelector_input_name doc n = find_first (matches_input_name n) doc"

text \<open>
  What the \<open>value\<close> setter of an input makes of a value: the argument is converted to a
  string first, then the input stores it in its mode. The result is the string the input
  holds afterwards, or the exception of the conversion or of the input.
\<close>

definition value_setter :: "element \<Rightarrow> jsval \<Rightarrow> js_error + string" where
  "value_setter el v =
     (case to_dom_string v of
        Inl e \<Rightarrow> Inl e
      | Inr str \<Rightarrow> store_value (value_mode el) str)"

text \<open>\<open>field.value = v\<close> on the element at position \<open>i\<close>.\<close>

definition set_value :: "nat \<Rightarrow> jsval \<Rightarrow> page \<Rightarrow> outcome" where
  "set_value i v s =
     (case value_setter (document s ! i) v of
        Inl e \<Rightarrow> Inl (e, s)
      | Inr kept \<Rightarrow>
          Inr (s\<lparr>document := (document s)[i := (document s ! i)\<lparr>elem_value := kept\<rparr>],
                 trace := trace s @ [SetValue i v]\<rparr>))"

text \<open>\<open>field.dispatchEvent(new Event(t, { bubbles: true }))\<close>.\<close>

definition dispatch_event :: "nat \<Rightarrow> string \<Rightarrow> page \<Rightarrow> page" where
  "dispatch_event i t s =
     s\<lparr>trace := trace s @ [DispatchEvent i \<lparr>event_type = t, bubbles = True\<rparr> (document s)]\<rparr>"

subsection \<open>The listener\<close>

text \<open>The condition \<open>event.data && event.data.type === 'image_selected'\<close>.\<close>

definition type_guard :: "jsval \<Rightarrow> js_error + bool" where
  "type_guard d =
     (if truthy d then
        (case get_prop d ''type'' of
           Inl e \<Rightarrow> Inl e
         | Inr t \<Rightarrow> Inr (strict_eq_str t ''image_selected''))
      else Inr False)"

text \<open>
  The text of the alert: a check-mark emoji, here the three bytes of its UTF-8 encoding,
  and the message.
\<close>

definition alert_text :: string where
  "alert_text = [CHR 0xE2, CHR 0x9C, CHR 0x85] @ '' Image selected! Fields have been filled.''"

text \<open>
  The branch taken when both fields were found (lines 16 to 27). An exception of line 17
  or of line 18 ends the listener there: the lines after it do not run.
\<close>

definition fill_fields :: "jsval \<Rightarrow> nat \<Rightarrow> nat \<Rightarrow> page \<Rightarrow> outcome" where
  "fill_fields d imageIdField imageUrlField s =
     (case get_prop d ''image_id'' of
        Inl e \<Rightarrow> Inl (e, s)
      | Inr image_id \<Rightarrow>
          (case set_value imageIdField image_id s of
             Inl thrown \<Rightarrow> Inl thrown
           | Inr s1 \<Rightarrow>
               (case get_prop d ''image_url'' of
                  Inl e \<Rightarrow> Inl (e, s1)
                | Inr image_url \<Rightarrow>
                    (case set_value imageUrlField image_url s1 of
                       Inl thrown \<Rightarrow> Inl thrown
                     | Inr s2 \<Rightarrow>
                         let s3 = dispatch_event imageIdField ''input'' s2;
                             s4 = dispatch_event imageIdField ''change'' s3;
                             s5 = dispatch_event imageUrlField ''input'' s4;
                             s6 = dispatch_event imageUrlField ''change'' s5;
                             s7 = console_log [LStr ''Fields updated successfully''] s6
                         in Inr (alert alert_text s7)))))"

text \<open>The listener (lines 2 to 32): the page before the message in, the outcome out.\<close>

definition handler :: "message_event \<Rightarrow> page \<Rightarrow> outcome" where
  "handler event s =
     (let s1 = console_log [LStr ''Message received:'', LVal (data event)] s in
      case type_guard (data event) of
        Inl e \<Rightarrow> Inl (e, s1)
      | Inr False \<Rightarrow> Inr s1
      | Inr True \<Rightarrow>
          let s2 = console_log [LStr ''Processing image selection...''] s1;
              imageIdField = querySelector_input_name (document s2) ''image_id_selected'';
              imageUrlField = querySelector_input_name (document s2) ''image_url_selected'';
              s3 = console_log [LStr ''Image ID field:'', LElem imageIdField] s2;
              s4 = console_log [LStr ''Image URL field:'', LElem imageUrlField] s3
          in (case (imageIdField, imageUrlField) of
                (Some i, Some u) \<Rightarrow> fill_fields (data event) i u s4
              | _ \<Rightarrow> Inr (console_error [LStr ''Could not find input fields''] s4)))"

subsection \<open>Reading a run\<close>

text \<open>
  The payload field \<open>k\<close> as the claims speak of it: the property, and \<open>undefined\<close> where
  the payload is absent.
\<close>

definition payload_field :: "jsval \<Rightarrow> string \<Rightarrow> jsval" where
  "payload_field d k = (case get_prop d k of Inl e \<Rightarrow> Undefined | Inr v \<Rightarrow> v)"

text \<open>The page a run ends with, and the exception that left the listener, if one did.\<close>

fun final_page :: "outcome \<Rightarrow> page" where
  "final_page (Inl (e, s)) = s"
| "final_page (Inr s) = s"

fun thrown_error :: "outcome \<Rightarrow> js_error option" where
  "thrown_error (Inl (e, s)) = Some e"
| "thrown_error (Inr s) = None"

text \<open>An input accepts a value when assigning the value to it throws nothing.\<close>

definition accepts :: "element \<Rightarrow> jsval \<Rightarrow> bool" where
  "accepts el v = (case value_setter el v of Inl e \<Rightarrow> False | Inr kept \<Rightarrow> True)"

text \<open>The entries a run from \<open>s\<close> to \<open>s'\<close> added to the trace.\<close>

definition emitted :: "page \<Rightarrow> page \<Rightarrow> effect list" where
  "emitted s s' = drop (length (trace s)) (trace s')"

fun is_dom_effect :: "effect \<Rightarrow> bool" where
  "is_dom_effect (SetValue i v) = True"
| "is_dom_effect (DispatchEvent i ev doc) = True"
| "is_dom_effect e = False"

fun is_alert :: "effect \<Rightarrow> bool" where
  "is_alert (Alert m) = True"
| "is_alert e = False"

fun is_console_error :: "effect \<Rightarrow> bool" where
  "is_console_error (ConsoleError args) = True"
| "is_console_error e = False"

text \<open>The dispatched events of a trace, each with its target, in order.\<close>

fun dispatches :: "effect list \<Rightarrow> (nat \<times> dom_event) list" where
  "dispatches [] = []"
| "dispatches (DispatchEvent i ev doc # es) = (i, ev) # dispatches es"
| "dispatches (e # es) = dispatches es"

text \<open>The four console lines of a message of the right type, up to the test of line 15.\<close>

definition preamble :: "message_event \<Rightarrow> nat option \<Rightarrow> nat option \<Rightarrow> effect list" where
  "preamble event imageIdField imageUrlField =
     [ConsoleLog [LStr ''Message received:'', LVal (data event)],
      ConsoleLog [LStr ''Processing image selection...''],
      ConsoleLog [LStr ''Image ID field:'', LElem imageIdField],
      ConsoleLog [LStr ''Image URL field:'', LElem imageUrlField]]"

text \<open>The document after element \<open>i\<close> came to hold \<open>a\<close>, and after element \<open>u\<close> then came to
  hold \<open>b\<close>.\<close>

definition filled_one :: "element list \<Rightarrow> nat \<Rightarrow> string \<Rightarrow> element list" where
  "filled_one doc i a = doc[i := (doc ! i)\<lparr>elem_value := a\<rparr>]"

definition filled :: "element list \<Rightarrow> nat \<Rightarrow> string \<Rightarrow> nat \<Rightarrow> string \<Rightarrow> element list" where
  "filled doc i a u b = filled_one (filled_one doc i a) u b"

subsection \<open>Sample inputs\<close>

text \<open>
  A form with a hidden input for the id and a text input for the URL; the same form without
  the second input; the same form with a file input in place of the hidden one.
\<close>

definition form_page :: page where
  "form_page =
     \<lparr>document =
        [\<lparr>tag_name = ''form'', name_attr = None, value_mode = ModeDefault, elem_value = []\<rparr>,
         \<lparr>tag_name = ''input'', name_attr = Some ''image_id_selected'',
          value_mode = ModeDefault, elem_value = []\<rparr>,
         \<lparr>tag_name = ''input'', name_attr = Some ''image_url_selected'',
          value_mode = ModeValue strip_newlines, elem_value = []\<rparr>],
      trace = []\<rparr>"

definition half_form_page :: page where
  "half_form_page =
     \<lparr>document =
        [\<lparr>tag_name = ''form'', name_attr = None, value_mode = ModeDefault, elem_value = []\<rparr>,
         \<lparr>tag_name = ''input'', name_attr = Some ''image_id_selected'',
          value_mode = ModeDefault, elem_value = []\<rparr>],
      trace = []\<rparr>"

definition file_form_page :: page where
  "file_form_page =
     \<lparr>document =
        [\<lparr>tag_name = ''form'', name_attr = None, value_mode = ModeDefault, elem_value = []\<rparr>,
         \<lparr>tag_name = ''input'', name_attr = Some ''image_id_selected'',
          value_mode = ModeFilename, elem_value = []\<rparr>,
         \<lparr>tag_name = ''input'', name_attr = Some ''image_url_selected'',
          value_mode = ModeValue strip_newlines, elem_value = []\<rparr>],
      trace = []\<rparr>"

text \<open>A selection, a message of another type, and a selection that names no image.\<close>

definition selection_event :: message_event where
  "selection_event =
     \<lparr>data = Obj [(''type'', Str ''image_selected''), (''image_id'', Str ''img-7''),
                  (''image_url'', Str ''https://cdn.example/7.png'')],
      origin = ''https://picker.example''\<rparr>"

definition resize_event :: message_event where
  "resize_event =
     \<lparr>data = Obj [(''type'', Str ''resize''), (''image_id'', Str ''img-7'')],
      origin = ''https://picker.example''\<rparr>"

definition bare_selection_event :: message_event where
  "bare_selection_event =
     \<lparr>data = Obj [(''type'', Str ''image_selected'')], origin = ''https://picker.example''\<rparr>"

text \<open>The selection message again, from another origin and with one more field.\<close>

definition tagged_selection_event :: message_event where
  "tagged_selection_event =
     \<lparr>data = Obj [(''nonce'', Num ''5''), (''type'', Str ''image_selected''),
                  (''image_id'', Str ''img-7''),
                  (''image_url'', Str ''https://cdn.example/7.png'')],
      origin = ''https://elsewhere.example''\<rparr>"

text \<open>
  Selections with a field that has no string form, the object \<open>{ toString: 1 }\<close>: as the
  id, as the URL, and as the URL of a message that has no id.
\<close>

definition opaque_id_event :: message_event where
  "opaque_id_event =
     \<lparr>data = Obj [(''type'', Str ''image_selected''),
                  (''image_id'', Obj [(''toString'', Num ''1'')]),
                  (''image_url'', Str ''https://cdn.example/7.png'')],
      origin = ''https://elsewhere.example''\<rparr>"

definition opaque_url_event :: message_event where
  "opaque_url_event =
     \<lparr>data = Obj [(''type'', Str ''image_selected''), (''image_id'', Str ''img-7''),
                  (''image_url'', Obj [(''toString'', Num ''1'')])],
      origin = ''https://elsewhere.example''\<rparr>"

definition bare_opaque_url_event :: message_event where
  "bare_opaque_url_event =
     \<lparr>data = Obj [(''type'', Str ''image_selected''),
                  (''image_url'', Obj [(''toString'', Num ''1'')])],
      origin = ''https://elsewhere.example''\<rparr>"

section \<open>Properties\<close>

subsection \<open>Auxiliary facts\<close>

lemma find_first_Some:
  "find_first P xs = Some i \<Longrightarrow> i < length xs \<and> P (xs ! i)"
proof (induction xs arbitrary: i)
  case Nil
  then show ?case by simp
next
  case (Cons x xs)
  then show ?case by (cases "P x") auto
qed

lemma querySelector_input_name_Some:
  assumes "querySelector_input_name doc n = Some i"
  shows "i < length doc" and "name_attr (doc ! i) = Some n" and "tag_name (doc ! i) = ''input''"
  using find_first_Some [of "matches_input_name n" doc i] assms
  by (simp_all add: querySelector_input_name_def matches_input_name_def)

text \<open>Two queries for different names never answer with the same element.\<close>

lemma querySelector_input_name_distinct:
  assumes "querySelector_input_name doc n = Some i"
    and "querySelector_input_name doc m = Some j"
    and "n \<noteq> m"
  shows "i \<noteq> j"
  using querySelector_input_name_Some(2) [OF assms(1)]
    querySelector_input_name_Some(2) [OF assms(2)] assms(3)
  by auto

lemma fields_distinct:
  assumes "querySelector_input_name doc ''image_id_selected'' = Some i"
    and "querySelector_input_name doc ''image_url_selected'' = Some u"
  shows "i \<noteq> u" and "i < length doc" and "u < length doc"
  using querySelector_input_name_distinct [OF assms]
    querySelector_input_name_Some(1) [OF assms(1)]
    querySelector_input_name_Some(1) [OF assms(2)]
  by simp_all

text \<open>The guard never throws, and it holds exactly when the payload's type field is the
  string \<open>image_selected\<close>.\<close>

lemma type_guard_eq:
  "type_guard d = Inr (payload_field d ''type'' = Str ''image_selected'')"
proof (cases d)
  case (Obj kvs)
  show ?thesis
  proof (cases "map_of kvs ''type''")
    case None
    with Obj show ?thesis by (simp add: type_guard_def payload_field_def)
  next
    case (Some t)
    with Obj show ?thesis by (cases t) (simp_all add: type_guard_def payload_field_def)
  qed
qed (simp_all add: type_guard_def payload_field_def)

text \<open>A payload whose type field is a string is an object, so its fields can be read.\<close>

lemma payload_field_Str_get_prop:
  "payload_field d ''type'' = Str t \<Longrightarrow> get_prop d k = Inr (payload_field d k)"
  by (cases d) (simp_all add: payload_field_def)

lemma payload_field_not_object:
  "\<forall>kvs. d \<noteq> Obj kvs \<Longrightarrow> payload_field d k = Undefined"
  by (cases d) (simp_all add: payload_field_def)

lemma emitted_append [simp]:
  "emitted s (s\<lparr>trace := trace s @ es\<rparr>) = es"
  "emitted s (s\<lparr>document := doc, trace := trace s @ es\<rparr>) = es"
  by (simp_all add: emitted_def)

lemma preamble_silent [simp]:
  "filter is_dom_effect (preamble event a b) = []"
  "filter is_alert (preamble event a b) = []"
  "filter is_console_error (preamble event a b) = []"
  "dispatches (preamble event a b) = []"
  "dispatches (preamble event a b @ es) = dispatches es"
  "e \<in> set (preamble event a b) \<Longrightarrow> \<not> is_dom_effect e \<and> \<not> is_alert e \<and> \<not> is_console_error e"
  by (auto simp add: preamble_def)


lemma filled_values:
  assumes "i < length doc" and "u < length doc" and "i \<noteq> u"
  shows "elem_value (filled doc i a u b ! i) = a" and "elem_value (filled doc i a u b ! u) = b"
  using assms by (simp_all add: filled_def filled_one_def)

text \<open>The five ways through the listener, each with the outcome it has.\<close>

lemma handler_other:
  assumes "payload_field (data event) ''type'' \<noteq> Str ''image_selected''"
  shows "handler event s =
     Inr (s\<lparr>trace := trace s @ [ConsoleLog [LStr ''Message received:'', LVal (data event)]]\<rparr>)"
  using assms by (simp add: handler_def type_guard_eq console_log_def)

lemma handler_missing:
  assumes "payload_field (data event) ''type'' = Str ''image_selected''"
    and "querySelector_input_name (document s) ''image_id_selected'' = None
       \<or> querySelector_input_name (document s) ''image_url_selected'' = None"
  shows "handler event s = Inr (s\<lparr>trace := trace s @
           [ConsoleLog [LStr ''Message received:'', LVal (data event)],
            ConsoleLog [LStr ''Processing image selection...''],
            ConsoleLog [LStr ''Image ID field:'',
              LElem (querySelector_input_name (document s) ''image_id_selected'')],
            ConsoleLog [LStr ''Image URL field:'',
              LElem (querySelector_input_name (document s) ''image_url_selected'')],
            ConsoleError [LStr ''Could not find input fields'']]\<rparr>)"
  using assms
  by (auto simp add: handler_def type_guard_eq console_log_def console_error_def Let_def
      split: option.splits)

lemma handler_first_throws:
  assumes "payload_field (data event) ''type'' = Str ''image_selected''"
    and "querySelector_input_name (document s) ''image_id_selected'' = Some i"
    and "querySelector_input_name (document s) ''image_url_selected'' = Some u"
    and "value_setter (document s ! i) (payload_field (data event) ''image_id'') = Inl e"
  shows "handler event s =
     Inl (e, s\<lparr>trace := trace s @ preamble event (Some i) (Some u)\<rparr>)"
  using assms payload_field_Str_get_prop [OF assms(1)]
  by (simp add: handler_def type_guard_eq console_log_def fill_fields_def set_value_def
      preamble_def Let_def)

lemma handler_second_throws:
  assumes "payload_field (data event) ''type'' = Str ''image_selected''"
    and "querySelector_input_name (document s) ''image_id_selected'' = Some i"
    and "querySelector_input_name (document s) ''image_url_selected'' = Some u"
    and "value_setter (document s ! i) (payload_field (data event) ''image_id'') = Inr a"
    and "value_setter (document s ! u) (payload_field (data event) ''image_url'') = Inl e"
  shows "handler event s =
     Inl (e, s\<lparr>document := filled_one (document s) i a,
               trace := trace s @ preamble event (Some i) (Some u)
                 @ [SetValue i (payload_field (data event) ''image_id'')]\<rparr>)"
  using assms payload_field_Str_get_prop [OF assms(1)] fields_distinct [OF assms(2,3)]
  by (simp add: handler_def type_guard_eq console_log_def fill_fields_def set_value_def
      preamble_def filled_one_def Let_def)

lemma handler_success:
  assumes "payload_field (data event) ''type'' = Str ''image_selected''"
    and "querySelector_input_name (document s) ''image_id_selected'' = Some i"
    and "querySelector_input_name (document s) ''image_url_selected'' = Some u"
    and "value_setter (document s ! i) (payload_field (data event) ''image_id'') = Inr a"
    and "value_setter (document s ! u) (payload_field (data event) ''image_url'') = Inr b"
    and "doc' = filled (document s) i a u b"
  shows "handler event s =
     Inr (s\<lparr>document := doc',
            trace := trace s @ preamble event (Some i) (Some u) @
           [SetValue i (payload_field (data event) ''image_id''),
            SetValue u (payload_field (data event) ''image_url''),
            DispatchEvent i \<lparr>event_type = ''input'', bubbles = True\<rparr> doc',
            DispatchEvent i \<lparr>event_type = ''change'', bubbles = True\<rparr> doc',
            DispatchEvent u \<lparr>event_type = ''input'', bubbles = True\<rparr> doc',
            DispatchEvent u \<lparr>event_type = ''change'', bubbles = True\<rparr> doc',
            ConsoleLog [LStr ''Fields updated successfully''],
            Alert alert_text]\<rparr>)"
  using assms payload_field_Str_get_prop [OF assms(1)] fields_distinct [OF assms(2,3)]
  by (simp add: handler_def type_guard_eq console_log_def fill_fields_def set_value_def
      dispatch_event_def alert_def preamble_def filled_def filled_one_def Let_def)

text \<open>On the sample forms the queries find what the markup says.\<close>

lemma form_page_queries:
  "querySelector_input_name (document form_page) ''image_id_selected'' = Some 1"
  "querySelector_input_name (document form_page) ''image_url_selected'' = Some 2"
  by (simp_all add: form_page_def querySelector_input_name_def matches_input_name_def)

lemma half_form_page_queries:
  "querySelector_input_name (document half_form_page) ''image_id_selected'' = Some 1"
  "querySelector_input_name (document half_form_page) ''image_url_selected'' = None"
  by (simp_all add: half_form_page_def querySelector_input_name_def matches_input_name_def)

lemma file_form_page_queries:
  "querySelector_input_name (document file_form_page) ''image_id_selected'' = Some 1"
  "querySelector_input_name (document file_form_page) ''image_url_selected'' = Some 2"
  by (simp_all add: file_form_page_def querySelector_input_name_def matches_input_name_def)

lemma sample_event_types:
  "payload_field (data selection_event) ''type'' = Str ''image_selected''"
  "payload_field (data bare_selection_event) ''type'' = Str ''image_selected''"
  "payload_field (data resize_event) ''type'' \<noteq> Str ''image_selected''"
  "payload_field (data opaque_id_event) ''type'' = Str ''image_selected''"
  "payload_field (data opaque_url_event) ''type'' = Str ''image_selected''"
  "payload_field (data bare_opaque_url_event) ''type'' = Str ''image_selected''"
  "payload_field (data tagged_selection_event) ''type'' = Str ''image_selected''"
  by (simp_all add: selection_event_def bare_selection_event_def resize_event_def
      opaque_id_event_def opaque_url_event_def bare_opaque_url_event_def
      tagged_selection_event_def payload_field_def)

lemma sample_event_fields:
  "payload_field (data selection_event) ''image_id'' = Str ''img-7''"
  "payload_field (data selection_event) ''image_url'' = Str ''https://cdn.example/7.png''"
  "payload_field (data tagged_selection_event) ''image_id'' = Str ''img-7''"
  "payload_field (data tagged_selection_event) ''image_url'' = Str ''https://cdn.example/7.png''"
  "payload_field (data bare_selection_event) ''image_id'' = Undefined"
  "payload_field (data bare_selection_event) ''image_url'' = Undefined"
  "payload_field (data opaque_id_event) ''image_id'' = Obj [(''toString'', Num ''1'')]"
  "payload_field (data opaque_url_event) ''image_id'' = Str ''img-7''"
  "payload_field (data opaque_url_event) ''image_url'' = Obj [(''toString'', Num ''1'')]"
  "payload_field (data bare_opaque_url_event) ''image_id'' = Undefined"
  "payload_field (data bare_opaque_url_event) ''image_url'' = Obj [(''toString'', Num ''1'')]"
  by (simp_all add: selection_event_def bare_selection_event_def
      opaque_id_event_def opaque_url_event_def bare_opaque_url_event_def
      tagged_selection_event_def payload_field_def)

text \<open>What the inputs of the sample forms make of the sample values.\<close>

lemma form_page_setters:
  "value_setter (document form_page ! 1) (Str ''img-7'') = Inr ''img-7''"
  "value_setter (document form_page ! 2) (Str ''https://cdn.example/7.png'')
     = Inr ''https://cdn.example/7.png''"
  "value_setter (document form_page ! 1) Undefined = Inr ''undefined''"
  "value_setter (document form_page ! 2) Undefined = Inr ''undefined''"
  "value_setter (document form_page ! 1) (Obj [(''toString'', Num ''1'')]) = Inl TypeError"
  "value_setter (document form_page ! 2) (Obj [(''toString'', Num ''1'')]) = Inl TypeError"
  by (simp_all add: form_page_def value_setter_def strip_newlines_def)

lemma file_form_page_setters:
  "value_setter (document file_form_page ! 1) (Str ''img-7'') = Inl InvalidStateError"
  by (simp add: file_form_page_def value_setter_def)

text \<open>The conversions of some values that are not strings.\<close>

lemma to_dom_string_samples:
  "to_dom_string (Num ''7'') = Inr ''7''"
  "to_dom_string Null = Inr []"
  "to_dom_string Undefined = Inr ''undefined''"
  "to_dom_string (Obj [(''a'', Num ''1'')]) = Inr ''[object Object]''"
  "to_dom_string (Obj [(''toString'', Num ''1'')]) = Inl TypeError"
  by simp_all


subsection \<open>The success branch\<close>

text \<open>
  C1 says that for a payload of type \<open>image_selected\<close> and both inputs present the two
  values are written and the four events dispatched. The assignment of line 17 converts
  its value to a string, and the conversion of \<open>{ toString: 1 }\<close> throws: the listener ends
  there, the document is as it was and no event is dispatched.
\<close>

theorem handler_fills_both_fields_counterexample:
  "payload_field (data opaque_id_event) ''type'' = Str ''image_selected''
   \<and> querySelector_input_name (document form_page) ''image_id_selected'' = Some 1
   \<and> querySelector_input_name (document form_page) ''image_url_selected'' = Some 2
   \<and> thrown_error (handler opaque_id_event form_page) = Some TypeError
   \<and> document (final_page (handler opaque_id_event form_page)) = document form_page
   \<and> dispatches (trace (final_page (handler opaque_id_event form_page))) = []"
proof -
  note h = sample_event_types(4) form_page_queries
  have "value_setter (document form_page ! 1) (payload_field (data opaque_id_event) ''image_id'')
      = Inl TypeError"
    using form_page_setters by (simp add: sample_event_fields)
  from handler_first_throws [OF h this] h show ?thesis
    by (simp add: form_page_def)
qed

text \<open>
  C1, amended. For a message whose payload type is \<open>image_selected\<close> and whose \<open>image_id\<close>
  and \<open>image_url\<close> are strings, when the queries for \<open>image_id_selected\<close> and
  \<open>image_url_selected\<close> both find an element and each of the two inputs stores its string
  unchanged, the listener returns normally, the first element's value is the payload's
  \<open>image_id\<close>, the second element's value is the payload's \<open>image_url\<close>, and a bubbling
  \<open>input\<close> and a bubbling \<open>change\<close> event are dispatched on each of the two elements, each
  exactly once and no other event.
\<close>

theorem handler_fills_both_fields:
  assumes selected: "payload_field (data event) ''type'' = Str ''image_selected''"
    and id_field: "querySelector_input_name (document s) ''image_id_selected'' = Some i"
    and url_field: "querySelector_input_name (document s) ''image_url_selected'' = Some u"
    and id_string: "payload_field (data event) ''image_id'' = Str a"
    and url_string: "payload_field (data event) ''image_url'' = Str b"
    and id_kept: "value_setter (document s ! i) (Str a) = Inr a"
    and url_kept: "value_setter (document s ! u) (Str b) = Inr b"
  shows "\<exists>s'. handler event s = Inr s'
      \<and> get_prop (data event) ''image_id'' = Inr (Str (elem_value (document s' ! i)))
      \<and> get_prop (data event) ''image_url'' = Inr (Str (elem_value (document s' ! u)))
      \<and> count_list (dispatches (emitted s s')) (i, \<lparr>event_type = ''input'', bubbles = True\<rparr>) = 1
      \<and> count_list (dispatches (emitted s s')) (i, \<lparr>event_type = ''change'', bubbles = True\<rparr>) = 1
      \<and> count_list (dispatches (emitted s s')) (u, \<lparr>event_type = ''input'', bubbles = True\<rparr>) = 1
      \<and> count_list (dispatches (emitted s s')) (u, \<lparr>event_type = ''change'', bubbles = True\<rparr>) = 1
      \<and> length (dispatches (emitted s s')) = 4"
proof -
  define doc' where "doc' = filled (document s) i a u b"
  note apart = fields_distinct [OF id_field url_field]
  have written: "elem_value (doc' ! i) = a" "elem_value (doc' ! u) = b"
    unfolding doc'_def using filled_values [OF apart(2,3,1)] by simp_all
  have reads: "get_prop (data event) ''image_id'' = Inr (Str a)"
    "get_prop (data event) ''image_url'' = Inr (Str b)"
    using payload_field_Str_get_prop [OF selected] id_string url_string by simp_all
  have run: "handler event s = Inr (s\<lparr>document := doc',
            trace := trace s @ preamble event (Some i) (Some u) @
           [SetValue i (payload_field (data event) ''image_id''),
            SetValue u (payload_field (data event) ''image_url''),
            DispatchEvent i \<lparr>event_type = ''input'', bubbles = True\<rparr> doc',
            DispatchEvent i \<lparr>event_type = ''change'', bubbles = True\<rparr> doc',
            DispatchEvent u \<lparr>event_type = ''input'', bubbles = True\<rparr> doc',
            DispatchEvent u \<lparr>event_type = ''change'', bubbles = True\<rparr> doc',
            ConsoleLog [LStr ''Fields updated successfully''],
            Alert alert_text]\<rparr>)"
    using id_kept url_kept
    by (intro handler_success [OF selected id_field url_field _ _ doc'_def])
      (simp_all add: id_string url_string)
  show ?thesis
    unfolding run using apart(1) written reads by simp
qed

text \<open>
  The theorem at the sample form and the sample selection message.
\<close>

theorem handler_fills_both_fields_witness:
  "payload_field (data selection_event) ''type'' = Str ''image_selected''
   \<and> querySelector_input_name (document form_page) ''image_id_selected'' = Some 1
   \<and> querySelector_input_name (document form_page) ''image_url_selected'' = Some 2
   \<and> payload_field (data selection_event) ''image_id'' = Str ''img-7''
   \<and> payload_field (data selection_event) ''image_url'' = Str ''https://cdn.example/7.png''
   \<and> value_setter (document form_page ! 1) (Str ''img-7'') = Inr ''img-7''
   \<and> value_setter (document form_page ! 2) (Str ''https://cdn.example/7.png'')
       = Inr ''https://cdn.example/7.png''
   \<and> (\<exists>s'. handler selection_event form_page = Inr s'
        \<and> elem_value (document s' ! 1) = ''img-7''
        \<and> elem_value (document s' ! 2) = ''https://cdn.example/7.png''
        \<and> count_list (dispatches (emitted form_page s')) (1, \<lparr>event_type = ''input'', bubbles = True\<rparr>) = 1
        \<and> count_list (dispatches (emitted form_page s')) (2, \<lparr>event_type = ''change'', bubbles = True\<rparr>) = 1
        \<and> length (dispatches (emitted form_page s')) = 4)"
proof -
  note h = sample_event_types(1) form_page_queries sample_event_fields(1,2) form_page_setters(1,2)
  from handler_fills_both_fields [OF h] obtain s' where
    s': "handler selection_event form_page = Inr s'"
      "get_prop (data selection_event) ''image_id'' = Inr (Str (elem_value (document s' ! 1)))"
      "get_prop (data selection_event) ''image_url'' = Inr (Str (elem_value (document s' ! 2)))"
      "count_list (dispatches (emitted form_page s')) (1, \<lparr>event_type = ''input'', bubbles = True\<rparr>) = 1"
      "count_list (dispatches (emitted form_page s')) (2, \<lparr>event_type = ''change'', bubbles = True\<rparr>) = 1"
      "length (dispatches (emitted form_page s')) = 4"
    by blast
  from s'(2,3) have "elem_value (document s' ! 1) = ''img-7''"
    "elem_value (document s' ! 2) = ''https://cdn.example/7.png''"
    by (simp_all add: selection_event_def)
  with s' h show ?thesis by blast
qed

text \<open>
  C9 says that on the success branch there are two assignments and then four dispatches.
  When the URL has no string form the assignment of line 18 throws: the run has made one
  assignment, the first field holds its new value, the second does not, and no event is
  dispatched.
\<close>

theorem handler_assigns_before_dispatch_counterexample:
  "payload_field (data opaque_url_event) ''type'' = Str ''image_selected''
   \<and> querySelector_input_name (document form_page) ''image_id_selected'' = Some 1
   \<and> querySelector_input_name (document form_page) ''image_url_selected'' = Some 2
   \<and> thrown_error (handler opaque_url_event form_page) = Some TypeError
   \<and> filter is_dom_effect (trace (final_page (handler opaque_url_event form_page)))
       = [SetValue 1 (Str ''img-7'')]
   \<and> elem_value (document (final_page (handler opaque_url_event form_page)) ! 1) = ''img-7''
   \<and> elem_value (document (final_page (handler opaque_url_event form_page)) ! 2) = []"
proof -
  note h = sample_event_types(5) form_page_queries
  have first: "value_setter (document form_page ! 1)
      (payload_field (data opaque_url_event) ''image_id'') = Inr ''img-7''"
    and second: "value_setter (document form_page ! 2)
      (payload_field (data opaque_url_event) ''image_url'') = Inl TypeError"
    using form_page_setters by (simp_all add: sample_event_fields)
  from handler_second_throws [OF h first second] h show ?thesis
    by (simp add: sample_event_fields form_page_def filled_one_def)
qed

text \<open>
  C9, amended. On the success branch, when neither assignment throws, the calls that touch
  the document are, in this order: the assignment to the \<open>image_id\<close> field, the assignment
  to the \<open>image_url\<close> field, then \<open>input\<close> and \<open>change\<close> on the \<open>image_id\<close> field, then
  \<open>input\<close> and \<open>change\<close> on the \<open>image_url\<close> field. Every dispatch, the first one included,
  happens on the final document, in which both fields hold what their setters stored.
\<close>

theorem handler_assigns_before_dispatch:
  assumes selected: "payload_field (data event) ''type'' = Str ''image_selected''"
    and id_field: "querySelector_input_name (document s) ''image_id_selected'' = Some i"
    and url_field: "querySelector_input_name (document s) ''image_url_selected'' = Some u"
    and id_kept: "value_setter (document s ! i) (payload_field (data event) ''image_id'') = Inr a"
    and url_kept: "value_setter (document s ! u) (payload_field (data event) ''image_url'') = Inr b"
  shows "\<exists>s'. handler event s = Inr s'
      \<and> filter is_dom_effect (emitted s s') =
          [SetValue i (payload_field (data event) ''image_id''),
           SetValue u (payload_field (data event) ''image_url''),
           DispatchEvent i \<lparr>event_type = ''input'', bubbles = True\<rparr> (document s'),
           DispatchEvent i \<lparr>event_type = ''change'', bubbles = True\<rparr> (document s'),
           DispatchEvent u \<lparr>event_type = ''input'', bubbles = True\<rparr> (document s'),
           DispatchEvent u \<lparr>event_type = ''change'', bubbles = True\<rparr> (document s')]
      \<and> elem_value (document s' ! i) = a
      \<and> elem_value (document s' ! u) = b"
proof -
  note apart = fields_distinct [OF id_field url_field]
  have written: "elem_value (filled (document s) i a u b ! i) = a"
    "elem_value (filled (document s) i a u b ! u) = b"
    using filled_values [OF apart(2,3,1)] by simp_all
  show ?thesis
    unfolding handler_success [OF selected id_field url_field id_kept url_kept refl]
    using written by simp
qed

text \<open>
  The order of the calls for the sample selection message on the sample form.
\<close>

theorem handler_assigns_before_dispatch_witness:
  "payload_field (data selection_event) ''type'' = Str ''image_selected''
   \<and> querySelector_input_name (document form_page) ''image_id_selected'' = Some 1
   \<and> querySelector_input_name (document form_page) ''image_url_selected'' = Some 2
   \<and> value_setter (document form_page ! 1) (payload_field (data selection_event) ''image_id'')
       = Inr ''img-7''
   \<and> value_setter (document form_page ! 2) (payload_field (data selection_event) ''image_url'')
       = Inr ''https://cdn.example/7.png''
   \<and> (\<exists>s'. handler selection_event form_page = Inr s'
      \<and> filter is_dom_effect (emitted form_page s') =
          [SetValue 1 (Str ''img-7''),
           SetValue 2 (Str ''https://cdn.example/7.png''),
           DispatchEvent 1 \<lparr>event_type = ''input'', bubbles = True\<rparr> (document s'),
           DispatchEvent 1 \<lparr>event_type = ''change'', bubbles = True\<rparr> (document s'),
           DispatchEvent 2 \<lparr>event_type = ''input'', bubbles = True\<rparr> (document s'),
           DispatchEvent 2 \<lparr>event_type = ''change'', bubbles = True\<rparr> (document s')]
      \<and> elem_value (document s' ! 1) = ''img-7''
      \<and> elem_value (document s' ! 2) = ''https://cdn.example/7.png'')"
proof -
  have kept: "value_setter (document form_page ! 1)
      (payload_field (data selection_event) ''image_id'') = Inr ''img-7''"
    "value_setter (document form_page ! 2)
      (payload_field (data selection_event) ''image_url'') = Inr ''https://cdn.example/7.png''"
    using form_page_setters by (simp_all add: sample_event_fields)
  note h = sample_event_types(1) form_page_queries kept
  from handler_assigns_before_dispatch [OF h] h show ?thesis
    unfolding sample_event_fields by blast
qed




subsection \<open>Messages of another type\<close>

text \<open>
  C2. For a message whose payload is absent (\<open>undefined\<close> or \<open>null\<close>) or whose type field is
  not \<open>image_selected\<close>, the listener returns normally and leaves the document alone: no
  element changes, no value is assigned and no event is dispatched.
\<close>

theorem handler_ignores_other_types:
  assumes "data event = Undefined \<or> data event = Null
      \<or> payload_field (data event) ''type'' \<noteq> Str ''image_selected''"
  shows "\<exists>s'. handler event s = Inr s'
      \<and> document s' = document s
      \<and> filter is_dom_effect (emitted s s') = []
      \<and> dispatches (emitted s s') = []"
proof -
  have "payload_field (data event) ''type'' \<noteq> Str ''image_selected''"
    using assms by (auto simp add: payload_field_def)
  from handler_other [OF this, of s] show ?thesis by simp
qed

text \<open>
  A message of type \<open>resize\<close> on the sample form.
\<close>

theorem handler_ignores_other_types_witness:
  "payload_field (data resize_event) ''type'' \<noteq> Str ''image_selected''
   \<and> (\<exists>s'. handler resize_event form_page = Inr s'
        \<and> document s' = document form_page
        \<and> filter is_dom_effect (emitted form_page s') = []
        \<and> dispatches (emitted form_page s') = [])"
  using handler_ignores_other_types [of resize_event form_page] sample_event_types(3)
  by blast

text \<open>
  C6 says that a message whose payload type is not \<open>image_selected\<close> makes the listener
  log an error. The outer \<open>if\<close> has no \<open>else\<close>: for the payload \<open>{ type: 'resize' }\<close>, on a
  document that has both inputs, the listener logs the received message and nothing more.
\<close>

theorem other_type_logs_error_counterexample:
  "payload_field (Obj [(''type'', Str ''resize'')]) ''type'' \<noteq> Str ''image_selected''
   \<and> handler \<lparr>data = Obj [(''type'', Str ''resize'')], origin = ''https://picker.example''\<rparr>
        \<lparr>document =
           [\<lparr>tag_name = ''input'', name_attr = Some ''image_id_selected'',
             value_mode = ModeDefault, elem_value = []\<rparr>,
            \<lparr>tag_name = ''input'', name_attr = Some ''image_url_selected'',
             value_mode = ModeDefault, elem_value = []\<rparr>],
         trace = []\<rparr>
     = Inr \<lparr>document =
           [\<lparr>tag_name = ''input'', name_attr = Some ''image_id_selected'',
             value_mode = ModeDefault, elem_value = []\<rparr>,
            \<lparr>tag_name = ''input'', name_attr = Some ''image_url_selected'',
             value_mode = ModeDefault, elem_value = []\<rparr>],
         trace = [ConsoleLog [LStr ''Message received:'', LVal (Obj [(''type'', Str ''resize'')])]]\<rparr>
   \<and> \<not> list_ex is_console_error
        [ConsoleLog [LStr ''Message received:'', LVal (Obj [(''type'', Str ''resize'')])]]"
  by (simp add: handler_def type_guard_def console_log_def payload_field_def)

text \<open>
  C6, amended. Whether the listener returns or throws, it logs an error if and only if the
  payload type is \<open>image_selected\<close> and at least one of the two inputs is missing; for a
  payload of any other type, or an absent one, it logs no error.
\<close>

theorem error_logged_iff_field_missing:
  "list_ex is_console_error (emitted s (final_page (handler event s))) \<longleftrightarrow>
     payload_field (data event) ''type'' = Str ''image_selected''
     \<and> (querySelector_input_name (document s) ''image_id_selected'' = None
        \<or> querySelector_input_name (document s) ''image_url_selected'' = None)"
proof (cases "payload_field (data event) ''type'' = Str ''image_selected''")
  case False
  from handler_other [OF this, of s] False show ?thesis by simp
next
  case selected: True
  show ?thesis
  proof (cases "querySelector_input_name (document s) ''image_id_selected'' = None
       \<or> querySelector_input_name (document s) ''image_url_selected'' = None")
    case True
    from handler_missing [OF selected this] selected True show ?thesis by simp
  next
    case False
    then obtain i u where
      found: "querySelector_input_name (document s) ''image_id_selected'' = Some i"
        "querySelector_input_name (document s) ''image_url_selected'' = Some u"
      by auto
    show ?thesis
    proof (cases "value_setter (document s ! i) (payload_field (data event) ''image_id'')")
      case (Inl e)
      from handler_first_throws [OF selected found this] found show ?thesis
        by (simp add: preamble_def)
    next
      case first: (Inr a)
      show ?thesis
      proof (cases "value_setter (document s ! u) (payload_field (data event) ''image_url'')")
        case (Inl e)
        from handler_second_throws [OF selected found first this] found show ?thesis
          by (simp add: preamble_def)
      next
        case (Inr b)
        from handler_success [OF selected found first this refl] found show ?thesis
          by (simp add: preamble_def)
      qed
    qed
  qed
qed

text \<open>
  No error for the \<open>resize\<close> message; an error for the selection message on the form
  that lacks an input; no error for the run that throws.
\<close>

theorem error_logged_iff_field_missing_witness:
  "payload_field (data resize_event) ''type'' \<noteq> Str ''image_selected''
   \<and> \<not> list_ex is_console_error (emitted form_page (final_page (handler resize_event form_page)))
   \<and> list_ex is_console_error
        (emitted half_form_page (final_page (handler selection_event half_form_page)))
   \<and> \<not> list_ex is_console_error
        (emitted form_page (final_page (handler opaque_id_event form_page)))"
  using error_logged_iff_field_missing [of form_page resize_event]
    error_logged_iff_field_missing [of half_form_page selection_event]
    error_logged_iff_field_missing [of form_page opaque_id_event]
  by (simp add: sample_event_types half_form_page_queries form_page_queries)

subsection \<open>Missing inputs\<close>

text \<open>
  C3. For a message of type \<open>image_selected\<close>, if at least one of the two queries finds no
  element, the listener returns normally (no exception leaves it) and logs the error
  \<open>Could not find input fields\<close>, once.
\<close>

theorem handler_logs_error_when_field_missing:
  assumes "payload_field (data event) ''type'' = Str ''image_selected''"
    and "querySelector_input_name (document s) ''image_id_selected'' = None
       \<or> querySelector_input_name (document s) ''image_url_selected'' = None"
  shows "\<exists>s'. handler event s = Inr s'
      \<and> ConsoleError [LStr ''Could not find input fields''] \<in> set (emitted s s')
      \<and> length (filter is_console_error (emitted s s')) = 1"
  unfolding handler_missing [OF assms] by simp

text \<open>
  The selection message on the form that has the first input only.
\<close>

theorem handler_logs_error_when_field_missing_witness:
  "payload_field (data selection_event) ''type'' = Str ''image_selected''
   \<and> querySelector_input_name (document half_form_page) ''image_url_selected'' = None
   \<and> (\<exists>s'. handler selection_event half_form_page = Inr s'
        \<and> ConsoleError [LStr ''Could not find input fields''] \<in> set (emitted half_form_page s')
        \<and> length (filter is_console_error (emitted half_form_page s')) = 1)"
  using handler_logs_error_when_field_missing [of selection_event half_form_page]
    sample_event_types(1) half_form_page_queries(2)
  by blast

text \<open>
  C4. For a message of type \<open>image_selected\<close>, if exactly one of the two inputs exists, the
  document is left as it was, no value is assigned, no event is dispatched and no alert is
  shown: there is no write to one field alone.
\<close>

theorem handler_no_partial_write:
  assumes "payload_field (data event) ''type'' = Str ''image_selected''"
    and "(querySelector_input_name (document s) ''image_id_selected'' = None)
       \<noteq> (querySelector_input_name (document s) ''image_url_selected'' = None)"
  shows "\<exists>s'. handler event s = Inr s'
      \<and> document s' = document s
      \<and> filter is_dom_effect (emitted s s') = []
      \<and> filter is_alert (emitted s s') = []"
proof -
  from assms(2) have "querySelector_input_name (document s) ''image_id_selected'' = None
       \<or> querySelector_input_name (document s) ''image_url_selected'' = None"
    by auto
  from handler_missing [OF assms(1) this] show ?thesis by simp
qed

text \<open>
  The form that has the first input only keeps that input's value.
\<close>

theorem handler_no_partial_write_witness:
  "payload_field (data selection_event) ''type'' = Str ''image_selected''
   \<and> querySelector_input_name (document half_form_page) ''image_id_selected'' = Some 1
   \<and> querySelector_input_name (document half_form_page) ''image_url_selected'' = None
   \<and> (\<exists>s'. handler selection_event half_form_page = Inr s'
        \<and> document s' = document half_form_page
        \<and> filter is_dom_effect (emitted half_form_page s') = []
        \<and> filter is_alert (emitted half_form_page s') = [])"
proof -
  have "(querySelector_input_name (document half_form_page) ''image_id_selected'' = None)
       \<noteq> (querySelector_input_name (document half_form_page) ''image_url_selected'' = None)"
    by (simp add: half_form_page_queries)
  from handler_no_partial_write [OF sample_event_types(1) this]
  show ?thesis
    using sample_event_types(1) half_form_page_queries by blast
qed

subsection \<open>Every message\<close>

text \<open>
  C5 says that an alert is shown if and only if the payload type is \<open>image_selected\<close> and
  both inputs exist. On the form whose first input is a file input both hold for the
  sample selection, the assignment of line 17 throws, and no alert is shown.
\<close>

theorem alert_iff_success_counterexample:
  "payload_field (data selection_event) ''type'' = Str ''image_selected''
   \<and> querySelector_input_name (document file_form_page) ''image_id_selected'' = Some 1
   \<and> querySelector_input_name (document file_form_page) ''image_url_selected'' = Some 2
   \<and> thrown_error (handler selection_event file_form_page) = Some InvalidStateError
   \<and> \<not> list_ex is_alert (trace (final_page (handler selection_event file_form_page)))"
proof -
  note h = sample_event_types(1) file_form_page_queries
  have "value_setter (document file_form_page ! 1)
      (payload_field (data selection_event) ''image_id'') = Inl InvalidStateError"
    using file_form_page_setters by (simp add: sample_event_fields)
  from handler_first_throws [OF h this] h show ?thesis
    by (simp add: file_form_page_def preamble_def)
qed

text \<open>
  C5, amended. An alert is shown if and only if the payload type is \<open>image_selected\<close>,
  both inputs exist and each of them accepts the value assigned to it, so that neither
  assignment throws.
\<close>

theorem alert_iff_success:
  "list_ex is_alert (emitted s (final_page (handler event s))) \<longleftrightarrow>
     payload_field (data event) ''type'' = Str ''image_selected''
     \<and> (\<exists>i u. querySelector_input_name (document s) ''image_id_selected'' = Some i
          \<and> querySelector_input_name (document s) ''image_url_selected'' = Some u
          \<and> accepts (document s ! i) (payload_field (data event) ''image_id'')
          \<and> accepts (document s ! u) (payload_field (data event) ''image_url''))"
proof (cases "payload_field (data event) ''type'' = Str ''image_selected''")
  case False
  from handler_other [OF this, of s] False show ?thesis by simp
next
  case selected: True
  show ?thesis
  proof (cases "querySelector_input_name (document s) ''image_id_selected'' = None
       \<or> querySelector_input_name (document s) ''image_url_selected'' = None")
    case True
    from handler_missing [OF selected this] True show ?thesis by auto
  next
    case False
    then obtain i u where
      found: "querySelector_input_name (document s) ''image_id_selected'' = Some i"
        "querySelector_input_name (document s) ''image_url_selected'' = Some u"
      by auto
    show ?thesis
    proof (cases "value_setter (document s ! i) (payload_field (data event) ''image_id'')")
      case (Inl e)
      from handler_first_throws [OF selected found this] found Inl show ?thesis
        by (simp add: preamble_def accepts_def)
    next
      case first: (Inr a)
      show ?thesis
      proof (cases "value_setter (document s ! u) (payload_field (data event) ''image_url'')")
        case (Inl e)
        from handler_second_throws [OF selected found first this] found Inl show ?thesis
          by (simp add: preamble_def accepts_def)
      next
        case (Inr b)
        from handler_success [OF selected found first this refl] selected found first Inr
        show ?thesis
          by (simp add: preamble_def accepts_def)
      qed
    qed
  qed
qed

text \<open>
  An alert on the success branch; none for a missing input, for another type, or for an
  assignment that throws.
\<close>

theorem alert_iff_success_witness:
  "list_ex is_alert (emitted form_page (final_page (handler selection_event form_page)))
   \<and> \<not> list_ex is_alert
        (emitted half_form_page (final_page (handler selection_event half_form_page)))
   \<and> \<not> list_ex is_alert (emitted form_page (final_page (handler resize_event form_page)))
   \<and> \<not> list_ex is_alert (emitted form_page (final_page (handler opaque_id_event form_page)))"
  using alert_iff_success [of form_page selection_event]
    alert_iff_success [of half_form_page selection_event]
    alert_iff_success [of form_page resize_event]
    alert_iff_success [of form_page opaque_id_event]
    form_page_setters
  by (simp add: sample_event_types sample_event_fields form_page_queries
      half_form_page_queries accepts_def)

text \<open>
  C7 says that the listener returns normally for every message. It throws a \<open>TypeError\<close>
  for a selection whose id is \<open>{ toString: 1 }\<close>, and an \<open>InvalidStateError\<close> for the sample
  selection on the form whose first input is a file input.
\<close>

theorem handler_total_counterexample:
  "thrown_error (handler opaque_id_event form_page) = Some TypeError
   \<and> thrown_error (handler selection_event file_form_page) = Some InvalidStateError"
proof -
  have "value_setter (document form_page ! 1)
      (payload_field (data opaque_id_event) ''image_id'') = Inl TypeError"
    using form_page_setters by (simp add: sample_event_fields)
  from handler_first_throws [OF sample_event_types(4) form_page_queries this]
  have first: "thrown_error (handler opaque_id_event form_page) = Some TypeError"
    by simp
  have "value_setter (document file_form_page ! 1)
      (payload_field (data selection_event) ''image_id'') = Inl InvalidStateError"
    using file_form_page_setters by (simp add: sample_event_fields)
  from handler_first_throws [OF sample_event_types(1) file_form_page_queries this]
  have "thrown_error (handler selection_event file_form_page) = Some InvalidStateError"
    by simp
  with first show ?thesis by simp
qed

text \<open>
  C7, amended. An exception leaves the listener if and only if the payload type is
  \<open>image_selected\<close>, both inputs exist and one of them does not accept the value assigned
  to it; for every other message and page the listener returns normally. In particular it
  returns normally for every payload that is not an object: the read of
  \<open>event.data.type\<close> would throw for \<open>undefined\<close> and \<open>null\<close>, and the truthiness test in
  front of it keeps the listener from making it.
\<close>

theorem handler_throws_iff:
  "((\<exists>e p. handler event s = Inl (e, p)) \<longleftrightarrow>
      payload_field (data event) ''type'' = Str ''image_selected''
      \<and> (\<exists>i u. querySelector_input_name (document s) ''image_id_selected'' = Some i
           \<and> querySelector_input_name (document s) ''image_url_selected'' = Some u
           \<and> \<not> (accepts (document s ! i) (payload_field (data event) ''image_id'')
                \<and> accepts (document s ! u) (payload_field (data event) ''image_url''))))
   \<and> ((\<forall>kvs. data event \<noteq> Obj kvs) \<longrightarrow> (\<exists>s'. handler event s = Inr s'))"
proof (cases "payload_field (data event) ''type'' = Str ''image_selected''")
  case False
  from handler_other [OF this, of s] False show ?thesis by simp
next
  case selected: True
  then have object: "\<exists>kvs. data event = Obj kvs"
    using payload_field_not_object [of "data event" "''type''"] by auto
  show ?thesis
  proof (cases "querySelector_input_name (document s) ''image_id_selected'' = None
       \<or> querySelector_input_name (document s) ''image_url_selected'' = None")
    case True
    from handler_missing [OF selected this] True object show ?thesis by auto
  next
    case False
    then obtain i u where
      found: "querySelector_input_name (document s) ''image_id_selected'' = Some i"
        "querySelector_input_name (document s) ''image_url_selected'' = Some u"
      by auto
    show ?thesis
    proof (cases "value_setter (document s ! i) (payload_field (data event) ''image_id'')")
      case (Inl e)
      from handler_first_throws [OF selected found this] selected found Inl object
      show ?thesis
        by (simp add: accepts_def)
    next
      case first: (Inr a)
      show ?thesis
      proof (cases "value_setter (document s ! u) (payload_field (data event) ''image_url'')")
        case (Inl e)
        from handler_second_throws [OF selected found first this] selected found Inl object
        show ?thesis
          by (simp add: accepts_def)
      next
        case (Inr b)
        from handler_success [OF selected found first this refl] selected found first Inr object
        show ?thesis
          by (simp add: accepts_def)
      qed
    qed
  qed
qed

text \<open>
  Payloads that are not objects, a selection that throws and a selection that does not.
\<close>

theorem handler_throws_iff_witness:
  "(\<exists>s'. handler \<lparr>data = Undefined, origin = ''https://picker.example''\<rparr> form_page = Inr s')
   \<and> (\<exists>s'. handler \<lparr>data = Null, origin = ''https://picker.example''\<rparr> form_page = Inr s')
   \<and> (\<exists>s'. handler \<lparr>data = Str ''ping'', origin = ''https://picker.example''\<rparr> form_page = Inr s')
   \<and> (\<exists>s'. handler \<lparr>data = Num ''0'', origin = ''https://picker.example''\<rparr> form_page = Inr s')
   \<and> (\<exists>e p. handler opaque_id_event form_page = Inl (e, p))
   \<and> \<not> (\<exists>e p. handler selection_event form_page = Inl (e, p))"
  using handler_throws_iff [of "\<lparr>data = Undefined, origin = ''https://picker.example''\<rparr>" form_page]
    handler_throws_iff [of "\<lparr>data = Null, origin = ''https://picker.example''\<rparr>" form_page]
    handler_throws_iff [of "\<lparr>data = Str ''ping'', origin = ''https://picker.example''\<rparr>" form_page]
    handler_throws_iff [of "\<lparr>data = Num ''0'', origin = ''https://picker.example''\<rparr>" form_page]
    handler_throws_iff [of opaque_id_event form_page]
    handler_throws_iff [of selection_event form_page]
    form_page_setters
  by (simp add: sample_event_types sample_event_fields form_page_queries accepts_def)

text \<open>
  C8. Two runs that start from the same document, with payloads that agree on \<open>type\<close>,
  \<open>image_id\<close> and \<open>image_url\<close>, end in the same document, make the same assignments and
  dispatches in the same order, and return or throw alike, whatever else the payloads hold
  and whatever the origins of the two messages are.
\<close>

theorem handler_depends_on_three_fields:
  assumes same_doc: "document s1 = document s2"
    and same_type: "payload_field (data e1) ''type'' = payload_field (data e2) ''type''"
    and same_id: "payload_field (data e1) ''image_id'' = payload_field (data e2) ''image_id''"
    and same_url: "payload_field (data e1) ''image_url'' = payload_field (data e2) ''image_url''"
  shows "document (final_page (handler e1 s1)) = document (final_page (handler e2 s2))
      \<and> filter is_dom_effect (emitted s1 (final_page (handler e1 s1)))
          = filter is_dom_effect (emitted s2 (final_page (handler e2 s2)))
      \<and> thrown_error (handler e1 s1) = thrown_error (handler e2 s2)"
proof (cases "payload_field (data e1) ''type'' = Str ''image_selected''")
  case False
  with same_type have other: "payload_field (data e2) ''type'' \<noteq> Str ''image_selected''"
    by simp
  show ?thesis
    unfolding handler_other [OF False] handler_other [OF other]
    using same_doc by simp
next
  case selected1: True
  with same_type have selected2: "payload_field (data e2) ''type'' = Str ''image_selected''"
    by simp
  show ?thesis
  proof (cases "querySelector_input_name (document s1) ''image_id_selected'' = None
       \<or> querySelector_input_name (document s1) ''image_url_selected'' = None")
    case missing1: True
    then have missing2: "querySelector_input_name (document s2) ''image_id_selected'' = None
       \<or> querySelector_input_name (document s2) ''image_url_selected'' = None"
      using same_doc by simp
    show ?thesis
      unfolding handler_missing [OF selected1 missing1] handler_missing [OF selected2 missing2]
      using same_doc by simp
  next
    case False
    then obtain i u where
      found1: "querySelector_input_name (document s1) ''image_id_selected'' = Some i"
        "querySelector_input_name (document s1) ''image_url_selected'' = Some u"
      by auto
    then have found2: "querySelector_input_name (document s2) ''image_id_selected'' = Some i"
        "querySelector_input_name (document s2) ''image_url_selected'' = Some u"
      using same_doc by simp_all
    show ?thesis
    proof (cases "value_setter (document s1 ! i) (payload_field (data e1) ''image_id'')")
      case (Inl e)
      then have "value_setter (document s2 ! i) (payload_field (data e2) ''image_id'') = Inl e"
        using same_doc same_id by simp
      from handler_first_throws [OF selected1 found1 Inl]
        handler_first_throws [OF selected2 found2 this]
      show ?thesis
        using same_doc by simp
    next
      case first1: (Inr a)
      then have first2:
        "value_setter (document s2 ! i) (payload_field (data e2) ''image_id'') = Inr a"
        using same_doc same_id by simp
      show ?thesis
      proof (cases "value_setter (document s1 ! u) (payload_field (data e1) ''image_url'')")
        case (Inl e)
        then have "value_setter (document s2 ! u) (payload_field (data e2) ''image_url'') = Inl e"
          using same_doc same_url by simp
        from handler_second_throws [OF selected1 found1 first1 Inl]
          handler_second_throws [OF selected2 found2 first2 this]
        show ?thesis
          using same_doc same_id by simp
      next
        case (Inr b)
        then have "value_setter (document s2 ! u) (payload_field (data e2) ''image_url'') = Inr b"
          using same_doc same_url by simp
        from handler_success [OF selected1 found1 first1 Inr refl]
          handler_success [OF selected2 found2 first2 this refl]
        show ?thesis
          using same_doc same_id same_url by simp
      qed
    qed
  qed
qed

text \<open>
  Two messages that differ in origin and in a fourth field.
\<close>

theorem handler_depends_on_three_fields_witness:
  "payload_field (data selection_event) ''type'' = payload_field (data tagged_selection_event) ''type''
   \<and> payload_field (data selection_event) ''image_id''
       = payload_field (data tagged_selection_event) ''image_id''
   \<and> payload_field (data selection_event) ''image_url''
       = payload_field (data tagged_selection_event) ''image_url''
   \<and> data selection_event \<noteq> data tagged_selection_event
   \<and> origin selection_event \<noteq> origin tagged_selection_event
   \<and> document (final_page (handler selection_event form_page))
       = document (final_page (handler tagged_selection_event form_page))
   \<and> filter is_dom_effect (emitted form_page (final_page (handler selection_event form_page)))
       = filter is_dom_effect
           (emitted form_page (final_page (handler tagged_selection_event form_page)))
   \<and> thrown_error (handler selection_event form_page)
       = thrown_error (handler tagged_selection_event form_page)"
proof -
  have agree:
    "payload_field (data selection_event) ''type'' = payload_field (data tagged_selection_event) ''type''"
    "payload_field (data selection_event) ''image_id''
       = payload_field (data tagged_selection_event) ''image_id''"
    "payload_field (data selection_event) ''image_url''
       = payload_field (data tagged_selection_event) ''image_url''"
    by (simp_all add: sample_event_types sample_event_fields)
  have differ: "data selection_event \<noteq> data tagged_selection_event"
    "origin selection_event \<noteq> origin tagged_selection_event"
    by (simp_all add: selection_event_def tagged_selection_event_def)
  from handler_depends_on_three_fields [OF refl agree, of form_page] agree differ
  show ?thesis by blast
qed

end
